theory Spec2Isabelle
  imports Main "HOL-Library.Sublist" "HOL-Library.Word"
begin

section \<open>The tool install step of \<^verbatim>\<open>src/pkg/tool/sonar/sonar.go\<close>\<close>

text \<open>
  The file holds, after the Sonar client, the step that installs build tools
  (\<^verbatim>\<open>ToolInstallStep\<close>, lines 316 to 485).  This theory embeds that step:
  \<^verbatim>\<open>Environs\<close>, \<^verbatim>\<open>GetObjectPath\<close>, \<^verbatim>\<open>runIntallationScripts\<close> and \<^verbatim>\<open>Run\<close>.
  Go strings are byte sequences, so a Go string is a \<^typ>\<open>string\<close> here, one
  \<^typ>\<open>char\<close> per byte.
\<close>

subsection \<open>The Go library functions the step calls\<close>

text \<open>
  \<^verbatim>\<open>strings.Split(s, sep)\<close> is called with the one-byte separators \<^verbatim>\<open>"/"\<close> and
  \<^verbatim>\<open>"="\<close> only, so the separator is a \<^typ>\<open>char\<close>.  The scan keeps the field read
  so far in \<open>cur\<close>; the result always has one field more than the string has
  separators, so it is never empty.
\<close>

fun split_scan :: "char \<Rightarrow> string \<Rightarrow> string \<Rightarrow> string list" where
  "split_scan sep cur [] = [cur]"
| "split_scan sep cur (c # cs) =
     (if c = sep then cur # split_scan sep [] cs else split_scan sep (cur @ [c]) cs)"

definition Split :: "string \<Rightarrow> char \<Rightarrow> string list" where
  "Split s sep = split_scan sep [] s"

text \<open>\<^verbatim>\<open>strings.Join(elems, sep)\<close>.\<close>

fun Join_strings :: "string list \<Rightarrow> string \<Rightarrow> string" where
  "Join_strings [] sep = []"
| "Join_strings [x] sep = x"
| "Join_strings (x # y # ys) sep = x @ sep @ Join_strings (y # ys) sep"

text \<open>\<^verbatim>\<open>strings.TrimLeft(s, "/")\<close>: the cutset is the single byte given.\<close>

definition TrimLeft :: "string \<Rightarrow> char \<Rightarrow> string" where
  "TrimLeft s c = dropWhile (\<lambda>x. x = c) s"

text \<open>
  The width in bytes of the first UTF-8 sequence of a non-empty string, as
  \<^verbatim>\<open>utf8.DecodeRuneInString\<close> reports it: an invalid or truncated sequence has
  width 1.  It is needed for one case only, a replacement of the empty pattern.
\<close>

definition cont_in :: "nat \<Rightarrow> nat \<Rightarrow> string \<Rightarrow> nat \<Rightarrow> bool" where
  "cont_in lo hi s i = (i < length s \<and> lo \<le> of_char (s ! i) \<and> of_char (s ! i) \<le> (hi::nat))"

definition rune_width :: "string \<Rightarrow> nat" where
  "rune_width s =
     (let b = (of_char (hd s) :: nat);
          sz = (if b < 0xC2 then 1 else if b < 0xE0 then 2 else if b < 0xF0 then 3
                else if b < 0xF5 then 4 else 1);
          lo = (if b = 0xE0 then 0xA0 else if b = 0xF0 then 0x90 else 0x80);
          hi = (if b = 0xED then 0x9F else if b = 0xF4 then 0x8F else 0xBF)
      in if sz = 1 \<or> length s < sz \<or> \<not> cont_in lo hi s 1 then 1
         else if sz = 2 then 2
         else if \<not> cont_in 0x80 0xBF s 2 then 1
         else if sz = 3 then 3
         else if \<not> cont_in 0x80 0xBF s 3 then 1
         else 4)"

fun insert_at_runes :: "string \<Rightarrow> nat \<Rightarrow> string \<Rightarrow> string" where
  "insert_at_runes new k [] = new"
| "insert_at_runes new 0 (c # cs) = new @ c # insert_at_runes new (rune_width (c # cs) - 1) cs"
| "insert_at_runes new (Suc k) (c # cs) = c # insert_at_runes new k cs"

text \<open>
  \<^verbatim>\<open>strings.ReplaceAll(s, old, new)\<close>, which is also
  \<^verbatim>\<open>strings.Replace(s, old, new, -1)\<close>: the occurrences of \<open>old\<close> are found from
  left to right and do not overlap.  The empty pattern matches before every
  UTF-8 sequence and at the end.
\<close>

function replace_scan :: "string \<Rightarrow> string \<Rightarrow> string \<Rightarrow> string" where
  "replace_scan [] old new = []"
| "replace_scan (c # cs) old new =
     (if old \<noteq> [] \<and> prefix old (c # cs)
      then new @ replace_scan (drop (length old) (c # cs)) old new
      else c # replace_scan cs old new)"
  by pat_completeness auto
termination
  by (relation "measure (\<lambda>(s, old, new). length s)") (auto simp: neq_Nil_conv)

definition ReplaceAll :: "string \<Rightarrow> string \<Rightarrow> string \<Rightarrow> string" where
  "ReplaceAll s old new = (if old = [] then insert_at_runes new 0 s else replace_scan s old new)"

text \<open>
  \<^verbatim>\<open>path.Clean\<close>, which on a Unix system is \<^verbatim>\<open>filepath.Clean\<close> too, read element by
  element: an empty element and \<^verbatim>\<open>.\<close> are skipped; \<^verbatim>\<open>..\<close> removes the element
  before it when there is one that is not itself \<^verbatim>\<open>..\<close>, is dropped at the root,
  and is kept otherwise.  The empty result is \<^verbatim>\<open>.\<close>.
\<close>

definition clean_step :: "bool \<Rightarrow> string list \<Rightarrow> string \<Rightarrow> string list" where
  "clean_step rooted out elem =
     (if elem = [] \<or> elem = ''.'' then out
      else if elem = ''..'' then
        (if out \<noteq> [] \<and> last out \<noteq> ''..'' then butlast out
         else if \<not> rooted then out @ [''..'']
         else out)
      else out @ [elem])"

definition Clean :: "string \<Rightarrow> string" where
  "Clean path =
     (if path = [] then ''.''
      else let rooted = (hd path = CHR ''/'');
               out = foldl (clean_step rooted) [] (Split path CHR ''/'');
               res = (if rooted then ''/'' else []) @ Join_strings out ''/''
           in if res = [] then ''.'' else res)"

text \<open>
  \<^verbatim>\<open>path.Join\<close> and \<^verbatim>\<open>filepath.Join\<close>: the elements from the first non-empty one
  on are joined with a slash and the result is cleaned; no non-empty element
  gives the empty string.
\<close>

definition Join :: "string list \<Rightarrow> string" where
  "Join elem =
     (case dropWhile (\<lambda>e. e = []) elem of
        [] \<Rightarrow> []
      | e # es \<Rightarrow> Clean (Join_strings (e # es) ''/''))"

text \<open>The verb \<^verbatim>\<open>%d\<close> of \<^verbatim>\<open>fmt.Sprintf\<close> on an unsigned number.\<close>

fun decimal :: "nat \<Rightarrow> string" where
  "decimal n =
     (if n < 10 then [''0123456789'' ! n]
      else decimal (n div 10) @ [''0123456789'' ! (n mod 10)])"

subsection \<open>Data\<close>

text \<open>
  The types \<^verbatim>\<open>step.Tool\<close>, \<^verbatim>\<open>step.StepToolInstallSpec\<close> and its \<^verbatim>\<open>S3Storage\<close> are
  declared in a package that is not part of the file; their fields are the ones
  the step reads and writes.  \<^verbatim>\<open>Installs\<close> is a slice of pointers, so an entry
  can be \<^verbatim>\<open>nil\<close>: \<^term>\<open>None\<close>.
\<close>

record Tool =
  Name :: string
  Version :: string
  Download :: string
  Envs :: "string list"
  Scripts :: "string list"

record S3 =
  Endpoint :: string
  Ak :: string
  Sk :: string
  Region :: string
  Bucket :: string
  Insecure :: bool
  Provider :: string
  Subfolder :: string

record StepToolInstallSpec =
  Installs :: "Tool option list"
  S3Storage :: S3

record ToolInstallStep =
  spec :: StepToolInstallSpec
  envs :: "string list"
  secretEnvs :: "string list"
  workspace :: string

text \<open>
  What the step takes from outside the file: the constants
  \<^verbatim>\<open>config.ConstructCachePath\<close> and \<^verbatim>\<open>config.FilepathParam\<close>, the result of
  \<^verbatim>\<open>config.Home()\<close> and the result of \<^verbatim>\<open>os.TempDir()\<close>.  Their values are not in
  the file, so they are parameters.
\<close>

record config =
  ConstructCachePath :: string
  FilepathParam :: string
  Home :: string
  TempDir :: string

text \<open>
  A Go \<^verbatim>\<open>error\<close> is modelled by its message.  The answers of the outside world
  to the calls of one \<^verbatim>\<open>runIntallationScripts\<close>: each call is made at most once,
  so one answer per call is enough.  \<^term>\<open>None\<close> is the \<^verbatim>\<open>nil\<close> error.
\<close>

type_synonym error = string

record responses =
  newClient :: "error option"
  s3Download :: "error option"
  httpDownload :: "error option"
  s3Upload :: "error option"
  uuidID :: "32 word"
  writeFile :: "error option"
  stdoutPipe :: "error option"
  stderrPipe :: "error option"
  cmdRun :: "error option"

text \<open>
  The calls the step makes to the outside, in the order it makes them, with
  their arguments.  Log lines and the two goroutines that copy the output of the
  subprocess to the log are left out.
\<close>

datatype event =
    NewClient string string string string bool string
  | S3Download string string string
  | HttpDownload string string
  | S3Upload string string string
  | NewUUID
  | WriteFile string string nat
  | StdoutPipe
  | StderrPipe
  | CmdRun string "string list" string "string list"

subsection \<open>\<^verbatim>\<open>Environs\<close> and \<^verbatim>\<open>GetObjectPath\<close> (lines 461 to 485)\<close>

fun Environs :: "config \<Rightarrow> string list \<Rightarrow> string list" where
  "Environs cfg [] = []"
| "Environs cfg (val # rest) =
     (if val = [] then Environs cfg rest
      else if length (Split val CHR ''='') \<noteq> 2 then Environs cfg rest
      else ReplaceAll val ''$HOME'' (Home cfg) # Environs cfg rest)"

definition GetObjectPath :: "string \<Rightarrow> string \<Rightarrow> string" where
  "GetObjectPath name subFolder =
     (if subFolder \<noteq> [] then TrimLeft (Join [subFolder, name]) CHR ''/''
      else TrimLeft name CHR ''/'')"

subsection \<open>\<^verbatim>\<open>runIntallationScripts\<close> (lines 352 to 459)\<close>

text \<open>
  Lines 373 to 407, the download of the package.  The block either returns from
  the function with an error or goes on with \<^verbatim>\<open>tmpPath\<close> set: the result is the
  error if any, the step with \<^verbatim>\<open>Subfolder\<close> overwritten, \<^verbatim>\<open>tmpPath\<close> and the calls
  made.
\<close>

definition download_package ::
  "config \<Rightarrow> responses \<Rightarrow> ToolInstallStep \<Rightarrow> Tool \<Rightarrow> error option \<times> ToolInstallStep \<times> string \<times> event list" where
  "download_package cfg rsp s tool =
     (if Download tool \<noteq> [] then
        let st = (S3Storage (spec s))
                   \<lparr>Subfolder := ConstructCachePath cfg @ ''/'' @ Name tool @ ''-v'' @ Version tool\<rparr>;
            s = s\<lparr>spec := (spec s)\<lparr>S3Storage := st\<rparr>\<rparr>;
            filepath = Split (Download tool) CHR ''/'';
            fileName = last filepath;
            tmpPath = Join [TempDir cfg, fileName];
            ev = [NewClient (Endpoint st) (Ak st) (Sk st) (Region st) (Insecure st) (Provider st)]
        in (case newClient rsp of
              None \<Rightarrow>
                let objectKey = GetObjectPath fileName (Subfolder st);
                    ev = ev @ [S3Download (Bucket st) objectKey tmpPath]
                in (case s3Download rsp of
                      Some _ \<Rightarrow>
                        let ev = ev @ [HttpDownload (Download tool) tmpPath]
                        in (case httpDownload rsp of
                              Some err \<Rightarrow>
                                (Some (''download package '' @ Download tool @ '' error: '' @ err),
                                 s, tmpPath, ev)
                            | None \<Rightarrow> (None, s, tmpPath, ev @ [S3Upload (Bucket st) tmpPath objectKey]))
                    | None \<Rightarrow> (None, s, tmpPath, ev))
            | Some _ \<Rightarrow>
                let ev = ev @ [HttpDownload (Download tool) tmpPath]
                in (case httpDownload rsp of
                      Some err \<Rightarrow> (Some err, s, tmpPath, ev)
                    | None \<Rightarrow> (None, s, tmpPath, ev)))
      else (None, s, [], []))"

text \<open>
  The whole function.  The pointer \<^verbatim>\<open>tool\<close> is modelled by the value it points to,
  given and returned: the function overwrites \<^verbatim>\<open>tool.Scripts\<close> in place (line 411),
  \<^verbatim>\<open>s.envs\<close> (line 366) and \<^verbatim>\<open>s.spec.S3Storage.Subfolder\<close> (line 374).
  \<^verbatim>\<open>openProxy\<close> is declared and never assigned, so it is \<^verbatim>\<open>false\<close>, and the two
  proxy lines are empty strings that are never appended.  The permission bits
  \<^verbatim>\<open>0700\<close> of line 421 are octal: 448.  \<^verbatim>\<open>CHR 0x0A\<close> is the newline.
\<close>

definition runIntallationScripts ::
  "config \<Rightarrow> responses \<Rightarrow> ToolInstallStep \<Rightarrow> Tool option
     \<Rightarrow> error option \<times> ToolInstallStep \<times> Tool option \<times> event list" where
  "runIntallationScripts cfg rsp s tool_ptr =
     (case tool_ptr of
        None \<Rightarrow> (None, s, None, [])
      | Some tool \<Rightarrow>
          let openProxy = False; proxyScript = []; disProxyScript = [];
              scripts = [''set -ex''];
              s = s\<lparr>envs := envs s @ Environs cfg (Envs tool)\<rparr>;
              scripts = (if openProxy then scripts @ [proxyScript] else scripts)
          in (case download_package cfg rsp s tool of
                (Some err, s, tmpPath, ev) \<Rightarrow> (Some err, s, Some tool, ev)
              | (None, s, tmpPath, ev) \<Rightarrow>
                  let tool = tool\<lparr>Scripts := map (\<lambda>command. ReplaceAll command (FilepathParam cfg) tmpPath)
                                                (Scripts tool)\<rparr>;
                      scripts = scripts @ Scripts tool;
                      scripts = (if openProxy then scripts @ [disProxyScript] else scripts);
                      file = Join [TempDir cfg, ''install_script_'' @ decimal (unat (uuidID rsp)) @ ''.sh''];
                      ev = ev @ [NewUUID, WriteFile file (Join_strings scripts [CHR 0x0A]) 448]
                  in (case writeFile rsp of
                        Some err \<Rightarrow> (Some (''write script file error: '' @ err), s, Some tool, ev)
                      | None \<Rightarrow>
                          let ev = ev @ [StdoutPipe]
                          in (case stdoutPipe rsp of
                                Some err \<Rightarrow> (Some err, s, Some tool, ev)
                              | None \<Rightarrow>
                                  let ev = ev @ [StderrPipe]
                                  in (case stderrPipe rsp of
                                        Some err \<Rightarrow> (Some err, s, Some tool, ev)
                                      | None \<Rightarrow>
                                          let ev = ev @ [CmdRun ''/bin/bash'' [file] (workspace s) (envs s)]
                                          in (case cmdRun rsp of
                                                Some err \<Rightarrow> (Some err, s, Some tool, ev)
                                              | None \<Rightarrow> (None, s, Some tool, ev)))))))"

subsection \<open>\<^verbatim>\<open>Run\<close> (lines 335 to 350)\<close>

text \<open>
  The loop over \<^verbatim>\<open>s.spec.Installs\<close>.  Line 343 reads \<^verbatim>\<open>tool.Name\<close> and
  \<^verbatim>\<open>tool.Version\<close> for the log before \<^verbatim>\<open>runIntallationScripts\<close> is called, which
  panics on a \<^verbatim>\<open>nil\<close> entry.  The tool at index \<open>i\<close> is the object the pointer at
  \<open>i\<close> points to, so what the call did to it is stored back at \<open>i\<close>.  The answers
  of the outside are given per index.
\<close>

datatype completion = Return "error option" | Panic

definition store_tool :: "ToolInstallStep \<Rightarrow> nat \<Rightarrow> Tool option \<Rightarrow> ToolInstallStep" where
  "store_tool s i tool = s\<lparr>spec := (spec s)\<lparr>Installs := (Installs (spec s))[i := tool]\<rparr>\<rparr>"

fun Run_loop ::
  "config \<Rightarrow> (nat \<Rightarrow> responses) \<Rightarrow> ToolInstallStep \<Rightarrow> nat \<Rightarrow> Tool option list
     \<Rightarrow> completion \<times> ToolInstallStep \<times> event list" where
  "Run_loop cfg rsp s i [] = (Return None, s, [])"
| "Run_loop cfg rsp s i (tool # rest) =
     (case tool of
        None \<Rightarrow> (Panic, s, [])
      | Some _ \<Rightarrow>
          (case runIntallationScripts cfg (rsp i) s tool of
             (Some err, s, tool, ev) \<Rightarrow> (Return (Some err), store_tool s i tool, ev)
           | (None, s, tool, ev) \<Rightarrow>
               (case Run_loop cfg rsp (store_tool s i tool) (Suc i) rest of
                  (r, s, ev') \<Rightarrow> (r, s, ev @ ev'))))"

definition Run :: "config \<Rightarrow> (nat \<Rightarrow> responses) \<Rightarrow> ToolInstallStep \<Rightarrow> completion \<times> ToolInstallStep \<times> event list" where
  "Run cfg rsp s = Run_loop cfg rsp s 0 (Installs (spec s))"

subsection \<open>Names for what the theorems speak about\<close>

text \<open>
  The calls of the download block (lines 379 to 406) and the calls that write and
  run the script (lines 421 and 454).
\<close>

fun is_download_event :: "event \<Rightarrow> bool" where
  "is_download_event (NewClient e a k r i p) = True"
| "is_download_event (S3Download b k p) = True"
| "is_download_event (HttpDownload u p) = True"
| "is_download_event (S3Upload b p k) = True"
| "is_download_event _ = False"

fun is_script_event :: "event \<Rightarrow> bool" where
  "is_script_event (WriteFile f c m) = True"
| "is_script_event (CmdRun p a d e) = True"
| "is_script_event _ = False"

text \<open>
  The value of \<^verbatim>\<open>tmpPath\<close> at line 410: empty as declared at line 361, or the path
  of line 378.
\<close>

definition artifact_path :: "config \<Rightarrow> Tool \<Rightarrow> string" where
  "artifact_path cfg tool =
     (if Download tool \<noteq> [] then Join [TempDir cfg, last (Split (Download tool) CHR ''/'')] else [])"

text \<open>The file name of line 420 and the text written at line 421.\<close>

definition script_file :: "config \<Rightarrow> responses \<Rightarrow> string" where
  "script_file cfg rsp =
     Join [TempDir cfg, ''install_script_'' @ decimal (unat (uuidID rsp)) @ ''.sh'']"

definition script_body :: "config \<Rightarrow> Tool \<Rightarrow> string" where
  "script_body cfg tool =
     Join_strings
       (''set -ex'' # map (\<lambda>command. ReplaceAll command (FilepathParam cfg) (artifact_path cfg tool))
                        (Scripts tool))
       [CHR 0x0A]"

text \<open>The value line 374 stores in \<^verbatim>\<open>Subfolder\<close>, and the step after that line.\<close>

definition cache_subfolder :: "config \<Rightarrow> Tool \<Rightarrow> string" where
  "cache_subfolder cfg tool = ConstructCachePath cfg @ ''/'' @ Name tool @ ''-v'' @ Version tool"

definition set_subfolder :: "config \<Rightarrow> Tool \<Rightarrow> ToolInstallStep \<Rightarrow> ToolInstallStep" where
  "set_subfolder cfg tool s =
     (if Download tool \<noteq> []
      then s\<lparr>spec := (spec s)\<lparr>S3Storage := (S3Storage (spec s))\<lparr>Subfolder := cache_subfolder cfg tool\<rparr>\<rparr>\<rparr>
      else s)"

section \<open>Properties\<close>

subsection \<open>The library functions\<close>

lemma split_scan_nonempty: "split_scan sep cur s \<noteq> []"
  by (induction s arbitrary: cur) auto

lemma Split_nonempty: "Split s sep \<noteq> []"
  by (simp add: Split_def split_scan_nonempty)

lemma Split_Nil: "Split [] sep = [[]]"
  by (simp add: Split_def)

lemma split_scan_no_sep:
  "sep \<notin> set a \<Longrightarrow> split_scan sep cur (a @ sep # b) = (cur @ a) # split_scan sep [] b"
  by (induction a arbitrary: cur) auto

lemma split_scan_single: "sep \<notin> set a \<Longrightarrow> split_scan sep cur a = [cur @ a]"
  by (induction a arbitrary: cur) auto

lemma Split_no_sep: "sep \<notin> set a \<Longrightarrow> Split (a @ sep # b) sep = a # Split b sep"
  using split_scan_no_sep [of sep a "[]" b] by (simp add: Split_def)

lemma Split_single: "sep \<notin> set a \<Longrightarrow> Split a sep = [a]"
  using split_scan_single [of sep a "[]"] by (simp add: Split_def)

lemma split_scan_last: "suffix (last (split_scan sep cur s)) (cur @ s)"
proof (induction s arbitrary: cur)
  case Nil
  show ?case by simp
next
  case (Cons c cs)
  show ?case
  proof (cases "c = sep")
    case True
    have "suffix (last (split_scan sep [] cs)) cs"
      using Cons.IH [of "[]"] by simp
    then have "suffix (last (split_scan sep [] cs)) (cur @ c # cs)"
      by (metis suffix_ConsI suffix_appendI)
    with True show ?thesis by (simp add: split_scan_nonempty)
  next
    case False
    with Cons.IH [of "cur @ [c]"] show ?thesis by simp
  qed
qed

lemma Split_last_suffix: "suffix (last (Split s sep)) s"
  using split_scan_last [of sep "[]" s] by (simp add: Split_def)

lemma split_scan_last_no_sep: "sep \<notin> set cur \<Longrightarrow> sep \<notin> set (last (split_scan sep cur s))"
  by (induction s arbitrary: cur) (auto simp: split_scan_nonempty)

lemma Split_last_no_sep: "sep \<notin> set (last (Split s sep))"
  using split_scan_last_no_sep [of sep "[]" s] by (simp add: Split_def)

lemma replace_scan_absent: "old \<noteq> [] \<Longrightarrow> \<not> sublist old s \<Longrightarrow> replace_scan s old new = s"
  by (induction s) (auto simp: sublist_Cons_right)

lemma ReplaceAll_absent: "old \<noteq> [] \<Longrightarrow> \<not> sublist old s \<Longrightarrow> ReplaceAll s old new = s"
  by (simp add: ReplaceAll_def replace_scan_absent)

subsection \<open>\<^verbatim>\<open>Environs\<close>\<close>

lemma Environs_filter:
  "Environs cfg vals =
     map (\<lambda>val. ReplaceAll val ''$HOME'' (Home cfg))
       (filter (\<lambda>val. length (Split val CHR ''='') = 2) vals)"
  by (induction vals) (auto simp: Split_Nil)

text \<open>
  Claim C6.  \<^verbatim>\<open>Environs\<close> returns, in their order, the entries that \<^verbatim>\<open>strings.Split\<close>
  cuts into exactly two parts at \<^verbatim>\<open>=\<close>, each with \<^verbatim>\<open>$HOME\<close> replaced, and nothing
  else; it has no error result.  On \<^verbatim>\<open>["A=1", "B", "=2", "C=3=3"]\<close> the result is
  \<^verbatim>\<open>["A=1", "=2"]\<close>, for every home directory: \<^verbatim>\<open>"B"\<close> is one part, \<^verbatim>\<open>"C=3=3"\<close> is
  three parts, and \<^verbatim>\<open>"=2"\<close> is two parts, the first of them empty.
\<close>

theorem Environs_keeps_two_parts:
  "Environs cfg vals =
     map (\<lambda>val. ReplaceAll val ''$HOME'' (Home cfg))
       (filter (\<lambda>val. length (Split val CHR ''='') = 2) vals)
   \<and> Environs cfg [''A=1'', ''B'', ''=2'', ''C=3=3''] = [''A=1'', ''=2'']
   \<and> Split ''B'' CHR ''='' = [''B'']
   \<and> Split ''C=3=3'' CHR ''='' = [''C'', ''3'', ''3'']
   \<and> Split ''=2'' CHR ''='' = ['''', ''2'']"
proof -
  have "Environs cfg [''A=1'', ''B'', ''=2'', ''C=3=3''] = [''A=1'', ''=2'']"
    by (simp add: Split_def ReplaceAll_def)
  then show ?thesis by (simp add: Environs_filter Split_def)
qed

end
